theory Spec2Isabelle
  imports Complex_Main "HOL-Library.List_Lexorder" "HOL-Library.Multiset" "HOL-Library.Log_Nat"
begin

section \<open>Python strings\<close>

text \<open>
  \<^verbatim>\<open>process_ris.py\<close> turns a Rayyan RIS export into a table. Its three functions,
  \<^verbatim>\<open>parse_ris_file\<close>, \<^verbatim>\<open>parse_n1\<close> and \<^verbatim>\<open>build_dataframe\<close>, are embedded below
  together with the parts of the Python library they call.

  A Python \<^verbatim>\<open>str\<close> is a sequence of Unicode code points, so a string is a list of
  natural numbers; slicing and \<^verbatim>\<open>len\<close> count code points. \<open>py\<close> reads an ASCII literal.
\<close>

type_synonym pystr = "nat list"

definition py :: "string \<Rightarrow> pystr" where
  "py s = map of_char s"

text \<open>
  \<^verbatim>\<open>str.strip()\<close> and the regular expression class \<^verbatim>\<open>\s\<close> use the same table of
  white space (the code points for which \<^verbatim>\<open>str.isspace\<close> holds).
\<close>

definition isspace :: "nat \<Rightarrow> bool" where
  "isspace c \<longleftrightarrow>
     (0x09 \<le> c \<and> c \<le> 0x0D) \<or> (0x1C \<le> c \<and> c \<le> 0x20) \<or> c = 0x85 \<or> c = 0xA0 \<or>
     c = 0x1680 \<or> (0x2000 \<le> c \<and> c \<le> 0x200A) \<or> c = 0x2028 \<or> c = 0x2029 \<or>
     c = 0x202F \<or> c = 0x205F \<or> c = 0x3000"

definition lstrip :: "pystr \<Rightarrow> pystr" where
  "lstrip s = dropWhile isspace s"

definition rstrip :: "pystr \<Rightarrow> pystr" where
  "rstrip s = rev (dropWhile isspace (rev s))"

definition strip :: "pystr \<Rightarrow> pystr" where
  "strip s = rstrip (lstrip s)"

text \<open>\<^verbatim>\<open>raw_line.rstrip("\n")\<close>\<close>

definition rstrip_newline :: "pystr \<Rightarrow> pystr" where
  "rstrip_newline s = rev (dropWhile (\<lambda>c. c = 0x0A) (rev s))"

definition startswith :: "pystr \<Rightarrow> pystr \<Rightarrow> bool" where
  "startswith s p \<longleftrightarrow> take (length p) s = p"

text \<open>\<^verbatim>\<open>s[i:j]\<close> for non-negative \<open>i\<close> and \<open>j\<close>; \<^verbatim>\<open>s[:j]\<close> is \<open>take j s\<close> and \<^verbatim>\<open>s[i:]\<close> is \<open>drop i s\<close>.\<close>

definition slice :: "nat \<Rightarrow> nat \<Rightarrow> pystr \<Rightarrow> pystr" where
  "slice i j s = take (j - i) (drop i s)"

fun join :: "pystr \<Rightarrow> pystr list \<Rightarrow> pystr" where
  "join sep [] = []"
| "join sep [x] = x"
| "join sep (x # y # ys) = x @ sep @ join sep (y # ys)"

text \<open>\<^verbatim>\<open>s.split(",")\<close>: splitting at one separator character; the empty string gives one empty piece.\<close>

fun split_on :: "nat \<Rightarrow> pystr \<Rightarrow> pystr list" where
  "split_on sep [] = [[]]"
| "split_on sep (c # cs) =
     (if c = sep then [] # split_on sep cs
      else (case split_on sep cs of [] \<Rightarrow> [[c]] | p # ps \<Rightarrow> (c # p) # ps))"

text \<open>
  \<^verbatim>\<open>s.replace(old, new)\<close> for a non-empty \<open>old\<close>: occurrences are replaced from the left and
  do not overlap. After a match at \<open>c # cs\<close> the scan resumes \<open>length old\<close> characters on,
  that is \<open>length old - 1\<close> characters into \<open>cs\<close>.
\<close>

fun replace :: "pystr \<Rightarrow> pystr \<Rightarrow> pystr \<Rightarrow> pystr" where
  "replace old new [] = []"
| "replace old new (c # cs) =
     (if startswith (c # cs) old then new @ replace old new (drop (length old - 1) cs)
      else c # replace old new cs)"

text \<open>\<^verbatim>\<open>s in t\<close> for two strings: \<open>s\<close> occurs in \<open>t\<close>.\<close>

fun substring :: "pystr \<Rightarrow> pystr \<Rightarrow> bool" where
  "substring s [] = (s = [])"
| "substring s (c # cs) = (startswith (c # cs) s \<or> substring s cs)"

section \<open>The record parser\<close>

text \<open>
  The file is opened in text mode with the default \<^verbatim>\<open>newline=None\<close>: the decoded text has
  \<^verbatim>\<open>\r\n\<close> and \<^verbatim>\<open>\r\<close> translated to \<^verbatim>\<open>\n\<close>, and iterating over the handle yields the
  lines, each with its final \<^verbatim>\<open>\n\<close> (the last line may lack it). The input of the model is
  the decoded text; opening and decoding the file are not modelled.
\<close>

fun universal_newlines :: "pystr \<Rightarrow> pystr" where
  "universal_newlines [] = []"
| "universal_newlines (c # cs) =
     (if c = 0x0D then
        (case cs of
           [] \<Rightarrow> [0x0A]
         | d # ds \<Rightarrow> if d = 0x0A then 0x0A # universal_newlines ds
                     else 0x0A # universal_newlines cs)
      else c # universal_newlines cs)"

fun readlines :: "pystr \<Rightarrow> pystr list" where
  "readlines [] = []"
| "readlines (c # cs) =
     (if c = 0x0A then [c] # readlines cs
      else (case readlines cs of [] \<Rightarrow> [[c]] | l # ls \<Rightarrow> (c # l) # ls))"

text \<open>
  A record is a \<^verbatim>\<open>defaultdict(list)\<close>: tags in insertion order, each with its values.
  \<open>append_value\<close> is \<^verbatim>\<open>record[tag].append(value)\<close>, \<open>rec_get r k\<close> is \<^verbatim>\<open>rec.get(k, [])\<close>,
  and a record is true when it has a key.
\<close>

type_synonym ris_record = "(pystr \<times> pystr list) list"

fun append_value :: "ris_record \<Rightarrow> pystr \<Rightarrow> pystr \<Rightarrow> ris_record" where
  "append_value [] tag v = [(tag, [v])]"
| "append_value ((k, vs) # r) tag v =
     (if k = tag then (k, vs @ [v]) # r else (k, vs) # append_value r tag v)"

definition rec_get :: "ris_record \<Rightarrow> pystr \<Rightarrow> pystr list" where
  "rec_get r k = (case map_of r k of None \<Rightarrow> [] | Some vs \<Rightarrow> vs)"

text \<open>The body of the loop \<^verbatim>\<open>for raw_line in fh\<close>, on the state \<open>(records, record)\<close>.\<close>

definition parse_line :: "ris_record list \<times> ris_record \<Rightarrow> pystr \<Rightarrow> ris_record list \<times> ris_record" where
  "parse_line st raw_line =
     (let records = fst st; record = snd st; line = rstrip_newline raw_line in
      if line = [] then (records, record)
      else if startswith line (py ''ER  -'') then
        ((if record \<noteq> [] then records @ [record] else records), [])
      else
        (let tag = take 2 line in
         if strip (slice 2 6 line) = py ''-''
         then (let value = strip (drop 6 line) in (records, append_value record tag value))
         else (records, record)))"

definition parse_ris_lines :: "pystr list \<Rightarrow> ris_record list" where
  "parse_ris_lines raw_lines = fst (foldl parse_line ([], []) raw_lines)"

definition parse_ris_file :: "pystr \<Rightarrow> ris_record list" where
  "parse_ris_file text = parse_ris_lines (readlines (universal_newlines text))"

section \<open>Regular expressions\<close>

text \<open>
  The two patterns of \<^verbatim>\<open>parse_n1\<close> are sequences of literal characters, greedy and lazy
  stars over a character class, and one group. \<open>rmatch\<close> is the backtracking matcher at a
  fixed start: a greedy star tries the longest run first, a lazy star the shortest. It
  carries the text that remained when the group was opened and when it was closed;
  \<open>group1\<close> is the text between the two. \<open>re_search\<close> tries the start positions from the
  left and returns \<^verbatim>\<open>match.group(1)\<close> of the first match.
\<close>

datatype regex_item =
    Lit nat
  | Star "nat \<Rightarrow> bool"
  | LazyStar "nat \<Rightarrow> bool"
  | GroupStart
  | GroupEnd

fun rmatch :: "regex_item list \<Rightarrow> pystr \<Rightarrow> pystr \<Rightarrow> pystr \<Rightarrow> (pystr \<times> pystr) option" where
  "rmatch [] s g0 g1 = Some (g0, g1)"
| "rmatch (Lit c # r) s g0 g1 =
     (case s of [] \<Rightarrow> None | x # xs \<Rightarrow> if x = c then rmatch r xs g0 g1 else None)"
| "rmatch (Star p # r) s g0 g1 =
     (case s of
        [] \<Rightarrow> rmatch r [] g0 g1
      | x # xs \<Rightarrow>
          if p x then
            (case rmatch (Star p # r) xs g0 g1 of
               Some m \<Rightarrow> Some m
             | None \<Rightarrow> rmatch r s g0 g1)
          else rmatch r s g0 g1)"
| "rmatch (LazyStar p # r) s g0 g1 =
     (case rmatch r s g0 g1 of
        Some m \<Rightarrow> Some m
      | None \<Rightarrow>
          (case s of
             [] \<Rightarrow> None
           | x # xs \<Rightarrow> if p x then rmatch (LazyStar p # r) xs g0 g1 else None))"
| "rmatch (GroupStart # r) s g0 g1 = rmatch r s s g1"
| "rmatch (GroupEnd # r) s g0 g1 = rmatch r s g0 s"

definition group1 :: "pystr \<times> pystr \<Rightarrow> pystr" where
  "group1 m = take (length (fst m) - length (snd m)) (fst m)"

fun re_search :: "regex_item list \<Rightarrow> pystr \<Rightarrow> pystr option" where
  "re_search re [] = map_option group1 (rmatch re [] [] [])"
| "re_search re (c # cs) =
     (case rmatch re (c # cs) [] [] of
        Some m \<Rightarrow> Some (group1 m)
      | None \<Rightarrow> re_search re cs)"

text \<open>\<^verbatim>\<open>r"RAYYAN-INCLUSION:\s*({.*?})"\<close>; without flags the dot matches all but \<^verbatim>\<open>\n\<close>.\<close>

definition INCLUSION_RE :: "regex_item list" where
  "INCLUSION_RE =
     map Lit (py ''RAYYAN-INCLUSION:'') @
     [Star isspace, GroupStart, Lit 0x7B, LazyStar (\<lambda>c. c \<noteq> 0x0A), Lit 0x7D, GroupEnd]"

text \<open>\<^verbatim>\<open>r"RAYYAN-EXCLUSION-REASONS:\s*([^|]*)"\<close>\<close>

definition REASONS_RE :: "regex_item list" where
  "REASONS_RE =
     map Lit (py ''RAYYAN-EXCLUSION-REASONS:'') @
     [Star isspace, GroupStart, Star (\<lambda>c. c \<noteq> 0x7C), GroupEnd]"

section \<open>Python values\<close>

text \<open>
  What \<^verbatim>\<open>json.loads\<close> returns, and so what a verdict can be. A float is the exact
  rational it denotes, an infinity or the NaN; the sign of zero is not kept.
\<close>

datatype py_error = JSONDecodeError | AttributeError | KeyError | TypeError

datatype pyfloat = Finite rat | PosInf | NegInf | NaN

datatype pyval =
    PNone
  | PBool bool
  | PInt int
  | PFloat pyfloat
  | PStr pystr
  | PList "pyval list"
  | PDict "(pystr \<times> pyval) list"

text \<open>
  \<^verbatim>\<open>float(text)\<close> is the binary64 value nearest to the decimal, ties to even: 53
  significant bits, the exponent of the leading bit at least \<open>-1022\<close>, and an infinity from
  \<open>2 ^ 1024\<close> on.
\<close>

definition pow2 :: "int \<Rightarrow> rat" where
  "pow2 k = (if 0 \<le> k then 2 ^ nat k else 1 / 2 ^ nat (- k))"

definition floor_log2 :: "rat \<Rightarrow> int" where
  "floor_log2 a =
     (let e0 = bitlen (fst (quotient_of a)) - bitlen (snd (quotient_of a))
      in if pow2 e0 \<le> a then e0 else e0 - 1)"

definition round_half_even :: "rat \<Rightarrow> int" where
  "round_half_even r =
     (let f = \<lfloor>r\<rfloor>; d = r - of_int f
      in if d < 1 / 2 then f else if 1 / 2 < d then f + 1 else if even f then f else f + 1)"

definition binary64 :: "rat \<Rightarrow> pyfloat" where
  "binary64 q =
     (if q = 0 then Finite 0
      else
        (let a = \<bar>q\<bar>;
             e = max (floor_log2 a) (- 1022);
             ulp = pow2 (e - 52);
             r = of_int (round_half_even (a / ulp)) * ulp
         in if pow2 1024 \<le> r then (if 0 < q then PosInf else NegInf)
            else Finite (if 0 < q then r else - r)))"

text \<open>\<^verbatim>\<open>bool(v)\<close>, as the test \<^verbatim>\<open>if rita and jules\<close> takes it.\<close>

fun truthy :: "pyval \<Rightarrow> bool" where
  "truthy PNone = False"
| "truthy (PBool b) = b"
| "truthy (PInt i) = (i \<noteq> 0)"
| "truthy (PFloat f) = (f \<noteq> Finite 0)"
| "truthy (PStr s) = (s \<noteq> [])"
| "truthy (PList xs) = (xs \<noteq> [])"
| "truthy (PDict d) = (d \<noteq> [])"

text \<open>
  \<^verbatim>\<open>a == b\<close>. Booleans, integers and floats compare by value, and the NaN equals
  nothing. Inside a list or a dictionary two items are equal when they are the same
  object or compare equal; the decoder returns one NaN object for every \<^verbatim>\<open>NaN\<close>.
\<close>

fun numeric :: "pyval \<Rightarrow> pyfloat option" where
  "numeric (PBool b) = Some (Finite (if b then 1 else 0))"
| "numeric (PInt i) = Some (Finite (of_int i))"
| "numeric (PFloat f) = Some f"
| "numeric v = None"

definition num_eq :: "pyval \<Rightarrow> pyval \<Rightarrow> bool" where
  "num_eq a b =
     (case (numeric a, numeric b) of
        (Some x, Some y) \<Rightarrow> x \<noteq> NaN \<and> x = y
      | _ \<Rightarrow> False)"

fun py_eq :: "pyval \<Rightarrow> pyval \<Rightarrow> bool"
  and same_or_eq :: "pyval \<Rightarrow> pyval \<Rightarrow> bool"
  and list_eq :: "pyval list \<Rightarrow> pyval list \<Rightarrow> bool"
  and dict_le :: "(pystr \<times> pyval) list \<Rightarrow> (pystr \<times> pyval) list \<Rightarrow> bool" where
  "py_eq PNone b = (b = PNone)"
| "py_eq (PStr s) b = (b = PStr s)"
| "py_eq (PList xs) b = (case b of PList ys \<Rightarrow> list_eq xs ys | _ \<Rightarrow> False)"
| "py_eq (PDict d) b = (case b of PDict e \<Rightarrow> length d = length e \<and> dict_le d e | _ \<Rightarrow> False)"
| "py_eq (PBool x) b = num_eq (PBool x) b"
| "py_eq (PInt x) b = num_eq (PInt x) b"
| "py_eq (PFloat x) b = num_eq (PFloat x) b"
| "same_or_eq a b = ((a = PFloat NaN \<and> b = PFloat NaN) \<or> py_eq a b)"
| "list_eq [] ys = (ys = [])"
| "list_eq (x # xs) ys = (case ys of [] \<Rightarrow> False | y # ys' \<Rightarrow> same_or_eq x y \<and> list_eq xs ys')"
| "dict_le [] e = True"
| "dict_le (kv # d) e =
     ((case map_of e (fst kv) of None \<Rightarrow> False | Some w \<Rightarrow> same_or_eq (snd kv) w) \<and> dict_le d e)"

text \<open>
  A \<^verbatim>\<open>dict\<close> keeps its keys in insertion order: \<open>dict_set\<close> is \<^verbatim>\<open>d[k] = v\<close> and
  \<open>dict_get d k dflt\<close> is \<^verbatim>\<open>d.get(k, dflt)\<close>.
\<close>

fun dict_set :: "(pystr \<times> 'v) list \<Rightarrow> pystr \<Rightarrow> 'v \<Rightarrow> (pystr \<times> 'v) list" where
  "dict_set [] k v = [(k, v)]"
| "dict_set (kw # d) k v = (if fst kw = k then (k, v) # d else kw # dict_set d k v)"

definition dict_get :: "(pystr \<times> 'v) list \<Rightarrow> pystr \<Rightarrow> 'v \<Rightarrow> 'v" where
  "dict_get d k dflt = (case map_of d k of None \<Rightarrow> dflt | Some v \<Rightarrow> v)"

text \<open>\<^verbatim>\<open>reason in r\<close>, for the values a cell can hold.\<close>

fun contains :: "pyval \<Rightarrow> pystr \<Rightarrow> py_error + bool" where
  "contains (PList xs) s = Inr (list_ex (\<lambda>x. py_eq x (PStr s)) xs)"
| "contains (PStr t) s = Inr (substring s t)"
| "contains (PDict d) s = Inr (list_ex (\<lambda>kv. fst kv = s) d)"
| "contains v s = Inl TypeError"

section \<open>The JSON decoder\<close>

text \<open>
  \<^verbatim>\<open>json.loads\<close> with its default arguments, as CPython's decoder reads a text: a scanner
  for the atoms and a machine with an explicit stack of the open arrays and objects for
  the grammar. Every failure is the one exception \<^verbatim>\<open>JSONDecodeError\<close>. The limits of the
  interpreter (recursion depth, the digits of an integer literal) are not modelled.
\<close>

definition isdigit :: "nat \<Rightarrow> bool" where
  "isdigit c \<longleftrightarrow> 0x30 \<le> c \<and> c \<le> 0x39"

definition hexval :: "nat \<Rightarrow> nat option" where
  "hexval c =
     (if 0x30 \<le> c \<and> c \<le> 0x39 then Some (c - 0x30)
      else if 0x41 \<le> c \<and> c \<le> 0x46 then Some (c - 0x41 + 10)
      else if 0x61 \<le> c \<and> c \<le> 0x66 then Some (c - 0x61 + 10)
      else None)"

definition hex4 :: "pystr \<Rightarrow> nat option" where
  "hex4 s =
     (if length s < 4 then None
      else (case (hexval (s ! 0), hexval (s ! 1), hexval (s ! 2), hexval (s ! 3)) of
              (Some a, Some b, Some c, Some d) \<Rightarrow> Some (((a * 16 + b) * 16 + c) * 16 + d)
            | _ \<Rightarrow> None))"

text \<open>The character after a backslash: \<^verbatim>\<open>" \ / b f n r t\<close>.\<close>

definition backslash :: "nat \<Rightarrow> nat option" where
  "backslash e =
     (if e = 0x22 \<or> e = 0x5C \<or> e = 0x2F then Some e
      else if e = 0x62 then Some 0x08
      else if e = 0x66 then Some 0x0C
      else if e = 0x6E then Some 0x0A
      else if e = 0x72 then Some 0x0D
      else if e = 0x74 then Some 0x09
      else None)"

definition cons_char :: "nat \<Rightarrow> (pystr \<times> pystr) option \<Rightarrow> (pystr \<times> pystr) option" where
  "cons_char c r = map_option (\<lambda>(s, rest). (c # s, rest)) r"

text \<open>
  \<open>scanstring\<close> reads a string after its opening quote (strict mode: no control
  character) and returns it with the text after the closing quote. A high surrogate
  escape followed by a low surrogate escape is one character.
\<close>

fun scanstring :: "pystr \<Rightarrow> (pystr \<times> pystr) option" where
  "scanstring [] = None"
| "scanstring (c # cs) =
     (if c = 0x22 then Some ([], cs)
      else if c = 0x5C then
        (case cs of
           [] \<Rightarrow> None
         | e # es \<Rightarrow>
             if e = 0x75 then
               (case hex4 es of
                  None \<Rightarrow> None
                | Some u \<Rightarrow>
                    if 0xD800 \<le> u \<and> u \<le> 0xDBFF \<and> take 2 (drop 4 es) = [0x5C, 0x75] then
                      (case hex4 (drop 6 es) of
                         None \<Rightarrow> None
                       | Some u2 \<Rightarrow>
                           if 0xDC00 \<le> u2 \<and> u2 \<le> 0xDFFF
                           then cons_char (0x10000 + (u - 0xD800) * 0x400 + (u2 - 0xDC00))
                                  (scanstring (drop 10 es))
                           else cons_char u (scanstring (drop 4 es)))
                    else cons_char u (scanstring (drop 4 es)))
             else
               (case backslash e of
                  None \<Rightarrow> None
                | Some x \<Rightarrow> cons_char x (scanstring es)))
      else if c < 0x20 then None
      else cons_char c (scanstring cs))"

definition digits_value :: "pystr \<Rightarrow> nat" where
  "digits_value ds = foldl (\<lambda>n d. 10 * n + (d - 0x30)) 0 ds"

definition pow10 :: "int \<Rightarrow> rat" where
  "pow10 k = (if 0 \<le> k then 10 ^ nat k else 1 / 10 ^ nat (- k))"

text \<open>
  A number is \<^verbatim>\<open>-?(0|[1-9][0-9]*)(\.[0-9]+)?([eE][-+]?[0-9]+)?\<close>: an \<^verbatim>\<open>int\<close> when it has
  neither fraction nor exponent, a \<^verbatim>\<open>float\<close> otherwise.
\<close>

definition match_number :: "pystr \<Rightarrow> (pyval \<times> pystr) option" where
  "match_number s =
     (let neg = (take 1 s = [0x2D]);
          s1 = (if neg then drop 1 s else s);
          integer = (if take 1 s1 = [0x30] then [0x30] else takeWhile isdigit s1);
          s2 = drop (length integer) s1;
          frac = (if take 1 s2 = [0x2E] then takeWhile isdigit (drop 1 s2) else []);
          s3 = (if frac = [] then s2 else drop (1 + length frac) s2);
          has_e = (take 1 s3 = [0x65] \<or> take 1 s3 = [0x45]);
          s4 = drop 1 s3;
          exp_neg = (take 1 s4 = [0x2D]);
          s5 = (if take 1 s4 = [0x2D] \<or> take 1 s4 = [0x2B] then drop 1 s4 else s4);
          exp_digits = (if has_e then takeWhile isdigit s5 else []);
          s6 = (if exp_digits = [] then s3 else drop (length exp_digits) s5)
      in if integer = [] then None
         else if frac = [] \<and> exp_digits = [] then
           Some (PInt ((if neg then - 1 else 1) * int (digits_value integer)), s6)
         else
           Some (PFloat (binary64
                   ((if neg then - 1 else 1) * of_nat (digits_value (integer @ frac)) *
                    pow10 ((if exp_neg then - 1 else 1) * int (digits_value exp_digits)
                           - int (length frac)))), s6))"

datatype token =
    TLBrace | TRBrace | TLBracket | TRBracket | TComma | TColon
  | TValue pyval

definition json_ws :: "nat \<Rightarrow> bool" where
  "json_ws c \<longleftrightarrow> c = 0x20 \<or> c = 0x09 \<or> c = 0x0A \<or> c = 0x0D"

definition scan_atom :: "pystr \<Rightarrow> (token \<times> pystr) option" where
  "scan_atom s =
     (case s of
        [] \<Rightarrow> None
      | c # cs \<Rightarrow>
          if c = 0x22 then map_option (\<lambda>(str, rest). (TValue (PStr str), rest)) (scanstring cs)
          else if c = 0x7B then Some (TLBrace, cs)
          else if c = 0x7D then Some (TRBrace, cs)
          else if c = 0x5B then Some (TLBracket, cs)
          else if c = 0x5D then Some (TRBracket, cs)
          else if c = 0x2C then Some (TComma, cs)
          else if c = 0x3A then Some (TColon, cs)
          else if startswith s (py ''null'') then Some (TValue PNone, drop 4 s)
          else if startswith s (py ''true'') then Some (TValue (PBool True), drop 4 s)
          else if startswith s (py ''false'') then Some (TValue (PBool False), drop 5 s)
          else
            (case match_number s of
               Some (v, rest) \<Rightarrow> Some (TValue v, rest)
             | None \<Rightarrow>
                 if startswith s (py ''NaN'') then Some (TValue (PFloat NaN), drop 3 s)
                 else if startswith s (py ''Infinity'') then Some (TValue (PFloat PosInf), drop 8 s)
                 else if startswith s (py ''-Infinity'') then Some (TValue (PFloat NegInf), drop 9 s)
                 else None))"

lemma cons_char_Some:
  "cons_char c r = Some (str, rest) \<longleftrightarrow> (\<exists>t. r = Some (t, rest) \<and> str = c # t)"
  by (cases r) (auto simp: cons_char_def)

lemma scanstring_shorter: "scanstring s = Some (str, rest) \<Longrightarrow> length rest < length s"
proof (induction s arbitrary: str rest rule: scanstring.induct)
  case 1
  then show ?case by simp
next
  case (2 c cs)
  show ?case
    using "2.prems" "2.IH"
    by (fastforce simp: cons_char_Some split: if_splits list.splits option.splits)
qed

lemma match_number_shorter:
  assumes "match_number s = Some (v, rest)"
  shows "length rest < length s"
proof -
  define neg where "neg = (take 1 s = [0x2D])"
  define s1 where "s1 = (if neg then drop 1 s else s)"
  define integer where "integer = (if take 1 s1 = [0x30] then [0x30] else takeWhile isdigit s1)"
  define s2 where "s2 = drop (length integer) s1"
  define frac where "frac = (if take 1 s2 = [0x2E] then takeWhile isdigit (drop 1 s2) else [])"
  define s3 where "s3 = (if frac = [] then s2 else drop (1 + length frac) s2)"
  define has_e where "has_e = (take 1 s3 = [0x65] \<or> take 1 s3 = [0x45])"
  define s4 where "s4 = drop 1 s3"
  define s5 where "s5 = (if take 1 s4 = [0x2D] \<or> take 1 s4 = [0x2B] then drop 1 s4 else s4)"
  define exp_digits where "exp_digits = (if has_e then takeWhile isdigit s5 else [])"
  define s6 where "s6 = (if exp_digits = [] then s3 else drop (length exp_digits) s5)"
  have int_ne: "integer \<noteq> []" and rest: "rest = s6"
    using assms
    unfolding match_number_def Let_def neg_def [symmetric] s1_def [symmetric]
      integer_def [symmetric] s2_def [symmetric] frac_def [symmetric] s3_def [symmetric]
      has_e_def [symmetric] s4_def [symmetric] s5_def [symmetric] exp_digits_def [symmetric]
      s6_def [symmetric]
    by (auto split: if_splits)
  have "length integer \<le> length s1"
    unfolding integer_def
    by (cases s1) (auto simp: length_takeWhile_le)
  with int_ne have "length s2 < length s1"
    unfolding s2_def by (cases integer) auto
  moreover have "length s1 \<le> length s"
    unfolding s1_def by simp
  moreover have "length s3 \<le> length s2"
    unfolding s3_def by simp
  moreover have s53: "length s5 \<le> length s3"
    unfolding s5_def s4_def by simp
  moreover have "length s6 \<le> length s3"
    using s53 unfolding s6_def by auto
  ultimately show ?thesis
    using rest by simp
qed

lemma scan_atom_shorter: "scan_atom s = Some (t, rest) \<Longrightarrow> length rest < length s"
  by (cases s)
    (auto simp: scan_atom_def startswith_def py_def
      split: if_splits option.splits prod.splits
      dest!: scanstring_shorter match_number_shorter)

text \<open>The atoms of a text, with the white space \<^verbatim>\<open>[ \t\n\r]\<close> between them skipped.\<close>

function tokenize :: "pystr \<Rightarrow> token list option" where
  "tokenize s =
     (case s of
        [] \<Rightarrow> Some []
      | c # cs \<Rightarrow>
          if json_ws c then tokenize cs
          else
            (case scan_atom s of
               None \<Rightarrow> None
             | Some (t, rest) \<Rightarrow> map_option (Cons t) (tokenize rest)))"
  by pat_completeness auto
termination
  by (relation "measure length") (auto dest: scan_atom_shorter)

declare tokenize.simps [simp del]

text \<open>
  The grammar. A frame is an open array with its items, an open object, or an open
  object with the key whose value is being read. The mode says what may come next: a
  value; a value or \<^verbatim>\<open>]\<close> (after \<^verbatim>\<open>[\<close>); a key or \<^verbatim>\<open>}\<close> (after \<^verbatim>\<open>{\<close>); a key (after a
  comma in an object); the colon; a comma or the closing bracket; nothing (the document
  is complete). A key set twice keeps its place and takes the later value, as
  \<^verbatim>\<open>dict(pairs)\<close> does.
\<close>

datatype frame =
    FArr "pyval list"
  | FObj "(pystr \<times> pyval) list"
  | FKey "(pystr \<times> pyval) list" pystr

datatype mode =
    MValue
  | MFirst
  | MKeyFirst
  | MKey
  | MColon
  | MNext
  | MDone pyval

fun deliver :: "pyval \<Rightarrow> frame list \<Rightarrow> (mode \<times> frame list) option" where
  "deliver v [] = Some (MDone v, [])"
| "deliver v (FArr xs # st) = Some (MNext, FArr (xs @ [v]) # st)"
| "deliver v (FKey d k # st) = Some (MNext, FObj (dict_set d k v) # st)"
| "deliver v (FObj d # st) = None"

fun begin_value :: "token \<Rightarrow> frame list \<Rightarrow> (mode \<times> frame list) option" where
  "begin_value (TValue v) st = deliver v st"
| "begin_value TLBracket st = Some (MFirst, FArr [] # st)"
| "begin_value TLBrace st = Some (MKeyFirst, FObj [] # st)"
| "begin_value t st = None"

fun begin_key :: "token \<Rightarrow> frame list \<Rightarrow> (mode \<times> frame list) option" where
  "begin_key (TValue (PStr k)) (FObj d # st) = Some (MColon, FKey d k # st)"
| "begin_key t st = None"

fun close_container :: "token \<Rightarrow> frame list \<Rightarrow> (mode \<times> frame list) option" where
  "close_container TRBracket (FArr xs # st) = deliver (PList xs) st"
| "close_container TRBrace (FObj d # st) = deliver (PDict d) st"
| "close_container t st = None"

fun json_step :: "mode \<times> frame list \<Rightarrow> token \<Rightarrow> (mode \<times> frame list) option" where
  "json_step (MValue, st) t = begin_value t st"
| "json_step (MFirst, st) t = (if t = TRBracket then close_container t st else begin_value t st)"
| "json_step (MKeyFirst, st) t = (if t = TRBrace then close_container t st else begin_key t st)"
| "json_step (MKey, st) t = begin_key t st"
| "json_step (MColon, st) t = (if t = TColon then Some (MValue, st) else None)"
| "json_step (MNext, st) t =
     (if t = TComma then
        (case st of
           FArr xs # st' \<Rightarrow> Some (MValue, st)
         | FObj d # st' \<Rightarrow> Some (MKey, st)
         | _ \<Rightarrow> None)
      else close_container t st)"
| "json_step (MDone v, st) t = None"

fun json_run :: "mode \<times> frame list \<Rightarrow> token list \<Rightarrow> pyval option" where
  "json_run (m, st) [] = (case m of MDone v \<Rightarrow> Some v | _ \<Rightarrow> None)"
| "json_run (m, st) (t # ts) =
     (case json_step (m, st) t of None \<Rightarrow> None | Some ms \<Rightarrow> json_run ms ts)"

text \<open>A text that starts with the byte order mark U+FEFF is refused.\<close>

definition json_loads :: "pystr \<Rightarrow> py_error + pyval" where
  "json_loads s =
     (if take 1 s = [0xFEFF] then Inl JSONDecodeError
      else
        (case tokenize s of
           None \<Rightarrow> Inl JSONDecodeError
         | Some ts \<Rightarrow>
             (case json_run (MValue, []) ts of
                None \<Rightarrow> Inl JSONDecodeError
              | Some v \<Rightarrow> Inr v)))"

section \<open>The decoder of the note field\<close>

text \<open>
  \<^verbatim>\<open>parse_n1\<close> returns \<^verbatim>\<open>(rita, jules, agreement, reasons)\<close>. Only \<^verbatim>\<open>JSONDecodeError\<close>
  is caught; \<^verbatim>\<open>decisions.get\<close> needs a dictionary. The two verdicts are whatever the
  decoded object holds under the two names, not only strings.
\<close>

definition parse_n1 :: "pystr list \<Rightarrow> py_error + (pyval \<times> pyval \<times> pystr \<times> pystr list)" where
  "parse_n1 n1_values =
     (let text = join (py '' | '') n1_values;
          decoded =
            (case re_search INCLUSION_RE text of
               None \<Rightarrow> Inr (PStr [], PStr [], [])
             | Some g \<Rightarrow>
                 (let decisions_str = replace (py ''=>'') (py '':'') g;
                      decisions =
                        (case json_loads decisions_str of
                           Inl e \<Rightarrow> (if e = JSONDecodeError then Inr (PDict []) else Inl e)
                         | Inr v \<Rightarrow> Inr v)
                  in case decisions of
                       Inl e \<Rightarrow> Inl e
                     | Inr (PDict d) \<Rightarrow>
                         (let rita = dict_get d (py ''Rita'') (PStr []);
                              jules = dict_get d (py ''Jules'') (PStr []);
                              agreement =
                                (if truthy rita \<and> truthy jules
                                 then (if py_eq rita jules then py ''Yes'' else py ''No'')
                                 else [])
                          in Inr (rita, jules, agreement))
                     | Inr _ \<Rightarrow> Inl AttributeError));
          reasons =
            (case re_search REASONS_RE text of
               None \<Rightarrow> []
             | Some g \<Rightarrow> map strip (filter (\<lambda>r. strip r \<noteq> []) (split_on 0x2C g)))
      in case decoded of
           Inl e \<Rightarrow> Inl e
         | Inr (rita, jules, agreement) \<Rightarrow> Inr (rita, jules, agreement, reasons))"

section \<open>The table builder\<close>

text \<open>
  A data frame is its column labels and its rows, each row a dictionary from the labels
  to the cells. \<^verbatim>\<open>pd.DataFrame(parsed_rows)\<close> takes the labels from the keys of the
  dictionaries (here every dictionary has the same thirteen keys, in the same order);
  from the empty list it has no column at all. \<^verbatim>\<open>df[name]\<close> raises \<^verbatim>\<open>KeyError\<close> for a
  label that is no column, \<^verbatim>\<open>df[name] = vals\<close> overwrites the column of that label or
  appends a new last column, and \<^verbatim>\<open>df.drop(columns=name)\<close> raises \<^verbatim>\<open>KeyError\<close> for a label
  that is no column. Cells hold the Python objects they were given.
\<close>

type_synonym row = "(pystr \<times> pyval) list"

record dataframe =
  columns :: "pystr list"
  rows :: "row list"

definition DataFrame :: "row list \<Rightarrow> dataframe" where
  "DataFrame data = \<lparr>columns = (case data of [] \<Rightarrow> [] | r # _ \<Rightarrow> map fst r), rows = data\<rparr>"

definition get_column :: "dataframe \<Rightarrow> pystr \<Rightarrow> py_error + pyval list" where
  "get_column df name =
     (if name \<in> set (columns df)
      then Inr (map (\<lambda>r. dict_get r name (PFloat NaN)) (rows df))
      else Inl KeyError)"

definition set_column :: "dataframe \<Rightarrow> pystr \<Rightarrow> pyval list \<Rightarrow> dataframe" where
  "set_column df name vals =
     \<lparr>columns = (if name \<in> set (columns df) then columns df else columns df @ [name]),
      rows = map (\<lambda>(r, v). dict_set r name v) (zip (rows df) vals)\<rparr>"

definition drop_column :: "dataframe \<Rightarrow> pystr \<Rightarrow> py_error + dataframe" where
  "drop_column df name =
     (if name \<in> set (columns df)
      then Inr \<lparr>columns = filter (\<lambda>c. c \<noteq> name) (columns df),
                rows = map (filter (\<lambda>kv. fst kv \<noteq> name)) (rows df)\<rparr>
      else Inl KeyError)"

text \<open>\<^verbatim>\<open>series.apply(f)\<close>: the function on every cell, the first exception ending it.\<close>

fun apply_series :: "(pyval \<Rightarrow> py_error + pyval) \<Rightarrow> pyval list \<Rightarrow> py_error + pyval list" where
  "apply_series f [] = Inr []"
| "apply_series f (x # xs) =
     (case f x of
        Inl e \<Rightarrow> Inl e
      | Inr y \<Rightarrow> (case apply_series f xs of Inl e \<Rightarrow> Inl e | Inr ys \<Rightarrow> Inr (y # ys)))"

text \<open>The first loop of \<^verbatim>\<open>build_dataframe\<close>, on \<open>all_reasons\<close> and \<open>parsed_rows\<close>.\<close>

fun collect_rows :: "pystr set \<Rightarrow> row list \<Rightarrow> ris_record list \<Rightarrow> py_error + (pystr set \<times> row list)" where
  "collect_rows all_reasons parsed_rows [] = Inr (all_reasons, parsed_rows)"
| "collect_rows all_reasons parsed_rows (rec # records) =
     (case parse_n1 (rec_get rec (py ''N1'')) of
        Inl e \<Rightarrow> Inl e
      | Inr (rita, jules, agreement, reasons) \<Rightarrow>
          (let authors = rec_get rec (py ''AU'');
               first_author = (case authors of [] \<Rightarrow> [] | a # _ \<Rightarrow> a);
               other_authors = join (py ''; '') (drop 1 authors)
           in collect_rows (all_reasons \<union> set reasons)
                (parsed_rows @
                 [[(py ''TI'', PStr (join (py '' '') (rec_get rec (py ''TI'')))),
                   (py ''T2'', PStr (join (py '' '') (rec_get rec (py ''T2'')))),
                   (py ''Y2'', PStr (join (py '' '') (rec_get rec (py ''Y2'')))),
                   (py ''Y3'', PStr (join (py '' '') (rec_get rec (py ''Y3'')))),
                   (py ''First Author'', PStr first_author),
                   (py ''Other Authors'', PStr other_authors),
                   (py ''AB'', PStr (join (py '' '') (rec_get rec (py ''AB'')))),
                   (py ''DO'', PStr (join (py '' '') (rec_get rec (py ''DO'')))),
                   (py ''AN'', PStr (join (py '' '') (rec_get rec (py ''AN'')))),
                   (py ''Rita Decision'', rita),
                   (py ''Jules Decision'', jules),
                   (py ''Agreement'', PStr agreement),
                   (py ''_reasons'', PList (map PStr reasons))]])
                records))"

text \<open>\<^verbatim>\<open>lambda r: "Yes" if reason in r else ""\<close>\<close>

definition mark :: "pystr \<Rightarrow> pyval \<Rightarrow> py_error + pyval" where
  "mark reason r =
     (case contains r reason of
        Inl e \<Rightarrow> Inl e
      | Inr b \<Rightarrow> Inr (PStr (if b then py ''Yes'' else [])))"

text \<open>The second loop, \<^verbatim>\<open>for reason in sorted(all_reasons)\<close>.\<close>

fun add_reason_columns :: "dataframe \<Rightarrow> pystr list \<Rightarrow> py_error + dataframe" where
  "add_reason_columns df [] = Inr df"
| "add_reason_columns df (reason # reasons) =
     (case get_column df (py ''_reasons'') of
        Inl e \<Rightarrow> Inl e
      | Inr series \<Rightarrow>
          (case apply_series (mark reason) series of
             Inl e \<Rightarrow> Inl e
           | Inr vals \<Rightarrow> add_reason_columns (set_column df reason vals) reasons))"

definition build_dataframe :: "ris_record list \<Rightarrow> py_error + dataframe" where
  "build_dataframe records =
     (case collect_rows {} [] records of
        Inl e \<Rightarrow> Inl e
      | Inr (all_reasons, parsed_rows) \<Rightarrow>
          (case add_reason_columns (DataFrame parsed_rows) (sorted_list_of_set all_reasons) of
             Inl e \<Rightarrow> Inl e
           | Inr df \<Rightarrow> drop_column df (py ''_reasons'')))"

section \<open>Notions used in the statements\<close>

text \<open>
  An end marker is a line that starts with \<^verbatim>\<open>ER  -\<close>. \<open>add_field\<close> is what a line that is
  no end marker does to a record. \<open>split_records\<close> cuts the lines at the end markers:
  the blocks that an end marker closes, in order, and the lines after the last end
  marker. \<open>record_of\<close> is the record of a block.
\<close>

definition is_end_marker :: "pystr \<Rightarrow> bool" where
  "is_end_marker raw_line \<longleftrightarrow> startswith (rstrip_newline raw_line) (py ''ER  -'')"

definition add_field :: "ris_record \<Rightarrow> pystr \<Rightarrow> ris_record" where
  "add_field record raw_line =
     (let line = rstrip_newline raw_line in
      if strip (slice 2 6 line) = py ''-''
      then append_value record (take 2 line) (strip (drop 6 line))
      else record)"

fun split_records :: "pystr list \<Rightarrow> pystr list list \<times> pystr list" where
  "split_records [] = ([], [])"
| "split_records (l # ls) =
     (case split_records ls of
        (bs, t) \<Rightarrow>
          if is_end_marker l then ([] # bs, t)
          else (case bs of [] \<Rightarrow> ([], l # t) | b # bs' \<Rightarrow> ((l # b) # bs', t)))"

definition record_of :: "pystr list \<Rightarrow> ris_record" where
  "record_of block = foldl add_field [] block"

section \<open>The record parser: properties\<close>

lemma ER_nonempty: "startswith line (py ''ER  -'') \<Longrightarrow> line \<noteq> []"
  by (auto simp: startswith_def py_def)

lemma strip_Nil [simp]: "strip [] = []"
  by (simp add: strip_def lstrip_def rstrip_def)

lemma dash_ne: "py ''-'' \<noteq> []"
  by (simp add: py_def)

lemma parse_line_end:
  "is_end_marker l \<Longrightarrow>
   parse_line (rs, acc) l = ((if acc \<noteq> [] then rs @ [acc] else rs), [])"
  using ER_nonempty [of "rstrip_newline l"]
  by (simp add: parse_line_def is_end_marker_def Let_def)

lemma parse_line_field:
  "\<not> is_end_marker l \<Longrightarrow> parse_line (rs, acc) l = (rs, add_field acc l)"
  using dash_ne
  by (auto simp: parse_line_def is_end_marker_def add_field_def Let_def slice_def)

lemma foldl_parse_line:
  "foldl parse_line (rs, acc) ls =
     (case split_records ls of
        (bs, t) \<Rightarrow>
          (case bs of
             [] \<Rightarrow> (rs, foldl add_field acc t)
           | b # bs' \<Rightarrow>
               (rs @ filter (\<lambda>r. r \<noteq> []) (foldl add_field acc b # map record_of bs'),
                foldl add_field [] t)))"
proof (induction ls arbitrary: rs acc)
  case Nil
  show ?case by simp
next
  case (Cons l ls)
  obtain bs t where st: "split_records ls = (bs, t)"
    by (cases "split_records ls")
  show ?case
  proof (cases "is_end_marker l")
    case True
    then show ?thesis
      using Cons.IH [of "if acc \<noteq> [] then rs @ [acc] else rs" "[]"] st
      by (simp add: parse_line_end record_of_def split: list.splits)
  next
    case False
    then show ?thesis
      using Cons.IH [of rs "add_field acc l"] st
      by (simp add: parse_line_field split: list.splits)
  qed
qed

lemma parse_ris_lines_blocks:
  "parse_ris_lines ls = filter (\<lambda>r. r \<noteq> []) (map record_of (fst (split_records ls)))"
  by (simp add: parse_ris_lines_def foldl_parse_line record_of_def split: prod.splits list.splits)

lemma split_records_append_trailing:
  "\<not> list_ex is_end_marker trailing \<Longrightarrow> fst (split_records (ls @ trailing)) = fst (split_records ls)"
proof (induction ls)
  case Nil
  then show ?case
    by (induction trailing) (auto split: prod.splits list.splits)
next
  case (Cons l ls)
  then show ?case
    by (auto split: prod.splits list.splits)
qed

lemma map_of_append_value:
  "map_of (append_value r t v) = (map_of r)(t \<mapsto> rec_get r t @ [v])"
  by (induction r t v rule: append_value.induct) (auto simp: rec_get_def fun_eq_iff)

lemma rec_get_append_value:
  "rec_get (append_value r t v) k = (if k = t then rec_get r t @ [v] else rec_get r k)"
  by (simp add: rec_get_def map_of_append_value)

lemma dash_length: "strip (slice 2 6 line) = py ''-'' \<Longrightarrow> length (take 2 line) = 2"
proof -
  assume a: "strip (slice 2 6 line) = py ''-''"
  have "slice 2 6 line \<noteq> []"
    using a dash_ne by (metis strip_Nil)
  then have "2 < length line"
    by (simp add: slice_def)
  then show ?thesis by simp
qed

text \<open>
  C7. A line that is neither blank nor an end marker leaves the list of sealed records
  alone. It is a field line exactly when characters 2 to 6 strip to a hyphen: then the
  tag is the first two characters, and the stripped text from position 6 on is appended
  to the values of that tag, the values of every other tag staying as they were. Any
  other line leaves the record unchanged.
\<close>

theorem C7_tagged_field_line:
  assumes "rstrip_newline raw_line \<noteq> []"
    and "\<not> startswith (rstrip_newline raw_line) (py ''ER  -'')"
  shows "fst (parse_line (records, record) raw_line) = records \<and>
    (if strip (slice 2 6 (rstrip_newline raw_line)) = py ''-''
     then length (take 2 (rstrip_newline raw_line)) = 2 \<and>
       (\<forall>k. rec_get (snd (parse_line (records, record) raw_line)) k =
          (if k = take 2 (rstrip_newline raw_line)
           then rec_get record k @ [strip (drop 6 (rstrip_newline raw_line))]
           else rec_get record k))
     else snd (parse_line (records, record) raw_line) = record)"
proof -
  have len: "strip (slice 2 6 (rstrip_newline raw_line)) = py ''-'' \<Longrightarrow>
      min (length (rstrip_newline raw_line)) 2 = 2"
    using dash_length [of "rstrip_newline raw_line"] by simp
  show ?thesis
    using assms len
    by (simp add: parse_line_def Let_def rec_get_append_value)
qed

theorem C7_tagged_field_line_witness:
  "rstrip_newline (py ''AU  - Smith, J. '' @ [0x0A]) \<noteq> [] \<and>
   \<not> startswith (rstrip_newline (py ''AU  - Smith, J. '' @ [0x0A])) (py ''ER  -'') \<and>
   strip (slice 2 6 (rstrip_newline (py ''AU  - Smith, J. '' @ [0x0A]))) = py ''-'' \<and>
   fst (parse_line ([], [(py ''AU'', [py ''Doe, A.''])]) (py ''AU  - Smith, J. '' @ [0x0A])) = [] \<and>
   rec_get (snd (parse_line ([], [(py ''AU'', [py ''Doe, A.''])]) (py ''AU  - Smith, J. '' @ [0x0A])))
     (py ''AU'') = [py ''Doe, A.'', py ''Smith, J.'']"
proof -
  have l: "rstrip_newline (py ''AU  - Smith, J. '' @ [0x0A]) = py ''AU  - Smith, J. ''"
    by (simp add: rstrip_newline_def py_def)
  have a: "rstrip_newline (py ''AU  - Smith, J. '' @ [0x0A]) \<noteq> []"
    unfolding l by (simp add: py_def)
  have b: "\<not> startswith (rstrip_newline (py ''AU  - Smith, J. '' @ [0x0A])) (py ''ER  -'')"
    unfolding l by (simp add: py_def startswith_def)
  have c: "strip (slice 2 6 (py ''AU  - Smith, J. '')) = py ''-''"
    by (simp add: py_def strip_def lstrip_def rstrip_def slice_def isspace_def)
  have d: "take 2 (py ''AU  - Smith, J. '') = py ''AU''"
    by (simp add: py_def)
  have e: "strip (drop 6 (py ''AU  - Smith, J. '')) = py ''Smith, J.''"
    by (simp add: py_def strip_def lstrip_def rstrip_def isspace_def)
  have f: "rec_get [(py ''AU'', [py ''Doe, A.''])] (py ''AU'') = [py ''Doe, A.'']"
    by (simp add: rec_get_def)
  show ?thesis
    using C7_tagged_field_line [OF a b, of "[]" "[(py ''AU'', [py ''Doe, A.''])]"] a b f
    unfolding l c d e by simp
qed

end
